theory Spec2Isabelle
  imports
    Main
    "HOL-Library.Word"
    "HOL-Library.Sublist"
    "HOL-Library.Char_ord"
    "HOL-Library.List_Lexorder"
    "HOL-Library.Multiset"
begin

unbundle bit_operations_syntax

section \<open>Common vocabulary\<close>

text \<open>
  Go errors are values. \<open>ErrNew\<close> is \<^verbatim>\<open>errors.New\<close> / \<^verbatim>\<open>fmt.Errorf\<close>,
  \<open>ErrWrap\<close> is \<^verbatim>\<open>errors.Wrap(err, msg)\<close>.  A nil-pointer dereference is not an
  error value: it is the outcome \<open>Panics\<close>.
\<close>

datatype error = ErrNew string | ErrWrap error string

datatype 'a outcome = Returns 'a | Panics

section \<open>The workspace manifest (package main)\<close>

text \<open>
  \<^verbatim>\<open>gps.PruneOptions\<close> is a \<^verbatim>\<open>uint8\<close> bit set.  The three flag constants used by
  \<^verbatim>\<open>fromRawManifest\<close> are declared in the gps library, outside the source file; they are
  taken as parameters.
\<close>

type_synonym PruneOptions = "8 word"

record gps_prune_flags =
  PruneNestedVendorDirs :: PruneOptions
  PruneGoTestFiles :: PruneOptions
  PruneUnusedPackages :: PruneOptions

record CascadingPruneOptions =
  DefaultOptions :: PruneOptions
  PerProjectOptions :: "string \<rightharpoonup> PruneOptions"

record rawPackage =
  Name :: string
  Path :: string

record rawManifest =
  raw_Packages :: "rawPackage list"

record Manifest =
  m_Packages :: "rawPackage list"
  m_PruneOptions :: CascadingPruneOptions

definition ManifestName :: string where
  "ManifestName = ''Gows.toml''"

definition fromRawManifest :: "gps_prune_flags \<Rightarrow> rawManifest \<Rightarrow> Manifest" where
  "fromRawManifest k raw =
     \<lparr> m_Packages = raw_Packages raw,
       m_PruneOptions =
         \<lparr> DefaultOptions =
             (PruneNestedVendorDirs k OR PruneGoTestFiles k OR PruneUnusedPackages k),
           PerProjectOptions = Map.empty \<rparr> \<rparr>"

text \<open>
  \<^verbatim>\<open>readManifest(r io.Reader)\<close>.  The reader is the result of draining it
  (\<^verbatim>\<open>buf.ReadFrom(r)\<close>): the bytes, or the read error.  \<^verbatim>\<open>toml.Unmarshal\<close> is
  the TOML library's decoder into \<^verbatim>\<open>rawManifest\<close>, a parameter.  The source's last
  \<^verbatim>\<open>if err != nil\<close> re-tests the decoder's error, which is nil there.
\<close>

definition readManifest ::
  "gps_prune_flags \<Rightarrow> (string \<Rightarrow> error + rawManifest) \<Rightarrow> error + string \<Rightarrow> error + Manifest"
where
  "readManifest k Unmarshal r =
     (case r of
        Inl err \<Rightarrow> Inl (ErrWrap err ''unable to read byte stream'')
      | Inr buf \<Rightarrow>
          (case Unmarshal buf of
             Inl err \<Rightarrow> Inl (ErrWrap err ''unable to parse the manifest as TOML'')
           | Inr raw \<Rightarrow> Inr (fromRawManifest k raw)))"

text \<open>
  \<^verbatim>\<open>NewManifest(root)\<close> opens \<^verbatim>\<open>filepath.Join(root, ManifestName)\<close> and drops both
  errors: the result is the nil manifest (\<open>None\<close>) when the file cannot be opened, read
  or decoded.  \<open>Join\<close> is \<^verbatim>\<open>filepath.Join\<close>; \<open>fs\<close> gives, for a path, the bytes read
  from the file there, or the error of opening or reading it.
\<close>

definition NewManifest ::
  "gps_prune_flags \<Rightarrow> (string \<Rightarrow> error + rawManifest) \<Rightarrow> (string list \<Rightarrow> string) \<Rightarrow>
   (string \<Rightarrow> error + string) \<Rightarrow> string \<Rightarrow> Manifest option"
where
  "NewManifest k Unmarshal Join fs root =
     (let mp = Join [root, ManifestName] in
      case readManifest k Unmarshal (fs mp) of
        Inl _ \<Rightarrow> None
      | Inr m \<Rightarrow> Some m)"

section \<open>Data of the dep and gps libraries\<close>

text \<open>
  \<^verbatim>\<open>gps.ProjectProperties\<close> is a struct of a source and a constraint, and
  \<^verbatim>\<open>gps.ProjectConstraints\<close> is a Go map from project root to that struct: the map
  holds the structs by value, so a lookup \<^verbatim>\<open>p, ok := constraints[root]\<close> yields a copy.
  The constraint type is an interface of gps; it is the type parameter \<open>'c\<close>, and its method
  \<^verbatim>\<open>Intersect\<close> is a parameter of the functions that call it.
\<close>

type_synonym ProjectRoot = string

record 'c ProjectProperties =
  Source :: string
  Constraint :: 'c

type_synonym 'c ProjectConstraints = "ProjectRoot \<rightharpoonup> 'c ProjectProperties"

text \<open>
  A \<^verbatim>\<open>dep.Manifest\<close>, as far as the source reads it: \<open>Constraints\<close> and \<open>Ovr\<close> are
  the maps returned by its methods \<^verbatim>\<open>DependencyConstraints()\<close> and \<^verbatim>\<open>Overrides()\<close>,
  each given as its entries in the order a \<^verbatim>\<open>range\<close> over it visits them (Go leaves
  that order open; a Go map has each key once).
\<close>

record 'c dep_Manifest =
  Constraints :: "(ProjectRoot \<times> 'c ProjectProperties) list"
  Ovr :: "(ProjectRoot \<times> 'c ProjectProperties) list"
  Ignored :: "string list"
  Required :: "string list"

text \<open>
  A version with the three strings \<^verbatim>\<open>gps.VersionComponentStrings\<close> returns for it, and a
  locked project of a solution or lock.
\<close>

record Version =
  v_rev :: string
  v_branch :: string
  v_ver :: string

definition VersionComponentStrings :: "Version \<Rightarrow> string \<times> string \<times> string" where
  "VersionComponentStrings v = (v_rev v, v_branch v, v_ver v)"

record LockedProject =
  lp_ProjectRoot :: ProjectRoot
  lp_Version :: Version
  lp_Packages :: "string list"

type_synonym Solution = "LockedProject list"
type_synonym Lock = "LockedProject list"

record Package =
  pkg_Name :: string
  pkg_ImportPath :: string
  pkg_Imports :: "string list"
  pkg_TestImports :: "string list"

record PackageOrErr =
  poe_P :: Package
  poe_Err :: "error option"

record PackageTree =
  t_ImportRoot :: string
  t_Packages :: "string \<rightharpoonup> PackageOrErr"

text \<open>A \<^verbatim>\<open>*dep.Project\<close>; a nil pointer is \<open>None\<close> where the source can hold one.\<close>

record 'c dep_Project =
  p_AbsRoot :: string
  p_ResolvedAbsRoot :: string
  p_ImportRoot :: ProjectRoot
  p_Manifest :: "'c dep_Manifest option"
  p_Lock :: "Lock option"

section \<open>Package kdep\<close>

text \<open>
  The kdep manifest type is declared in another file of the package.  The source reads
  its \<^verbatim>\<open>Meta\<close> fields and writes \<^verbatim>\<open>SubManifests\<close> and \<^verbatim>\<open>Dependencies\<close>
  (the value \<^verbatim>\<open>GetPackageDependencies\<close> returns, of type \<open>'d\<close>).
\<close>

record Meta =
  IsKdepRoot :: bool
  IsKdepChild :: bool
  LocalDeps :: "string list"
  LocalGopaths :: "string list"
  GodepCompat :: bool

record ('c, 'd) kdep_Manifest =
  km_Manifest :: "'c dep_Manifest option"
  km_Meta :: Meta
  SubManifests :: "string \<rightharpoonup> 'c dep_Manifest option"
  Dependencies :: "'d option"

record ('c, 'd) Project =
  k_Project :: "'c dep_Project option"
  k_Manifest :: "('c, 'd) kdep_Manifest"
  SubProjects :: "'c dep_Project option list"
  extraVendorEntries :: "string \<rightharpoonup> string"

record DepsBuilder =
  db_Root :: string
  db_Package :: string
  db_LocalPackages :: "string list"
  db_SkipSubdirs :: "string list"

text \<open>
  \<^verbatim>\<open>gps.SolveParameters\<close> as \<^verbatim>\<open>MakeParams\<close> fills it.  Its \<^verbatim>\<open>Manifest\<close> field is
  an interface value: the kdep manifest in kdep mode, whatever \<^verbatim>\<open>dep.Project.MakeParams\<close>
  puts there (the project's own manifest) in fallback mode.
\<close>

datatype ('c, 'd) RootManifest =
  DepManifest "'c dep_Manifest option"
| KdepManifest "('c, 'd) kdep_Manifest"

record ('c, 'd) SolveParameters =
  sp_RootDir :: string
  sp_Manifest :: "('c, 'd) RootManifest"
  sp_Lock :: "Lock option"

text \<open>The structs of the Godeps export, with their fields in declaration order.\<close>

record dependency =
  d_ImportPath :: string
  d_Comment :: string
  d_Rev :: string

record godeps =
  gd_Comment :: string
  gd_ImportPath :: string
  gd_Deps :: "dependency list"

text \<open>
  What the package calls outside the source file: \<^verbatim>\<open>manifestFromProject\<close> and
  \<^verbatim>\<open>WrapManifest\<close> of package kdep (the latter builds a manifest, never nil),
  \<^verbatim>\<open>filepath.Join\<close>, \<^verbatim>\<open>os.Stat\<close> (true when it reports no error),
  \<^verbatim>\<open>LoadProject\<close> of the context copied with the given working directory,
  \<^verbatim>\<open>GetPackageDependencies\<close> of the builder, the \<^verbatim>\<open>ParseRootPackageTree\<close>
  and \<^verbatim>\<open>MakeParams\<close> methods of \<^verbatim>\<open>dep.Project\<close>, \<^verbatim>\<open>json.MarshalIndent\<close> with
  the source's prefix and indent, and \<^verbatim>\<open>ioutil.WriteFile\<close> with the source's mode.
  A Go call returning a value and an error is a pair of the value and the optional error
  where the source uses the value whatever the error.
\<close>

record ('c, 'd) kdep_env =
  manifestFromProject :: "'c dep_Project option \<Rightarrow> ('c, 'd) kdep_Manifest option"
  WrapManifest :: "'c dep_Manifest option \<Rightarrow> ('c, 'd) kdep_Manifest"
  Join :: "string list \<Rightarrow> string"
  Stat :: "string \<Rightarrow> bool"
  LoadProject :: "string \<Rightarrow> error + 'c dep_Project"
  GetPackageDependencies :: "DepsBuilder \<Rightarrow> error + 'd"
  dep_ParseRootPackageTree :: "'c dep_Project \<Rightarrow> PackageTree \<times> error option"
  dep_MakeParams :: "'c dep_Project \<Rightarrow> ('c, 'd) SolveParameters"
  MarshalIndent :: "godeps \<Rightarrow> error + string"
  WriteFile :: "string \<Rightarrow> string \<Rightarrow> error option"

subsection \<open>WrapProject\<close>

text \<open>
  The inner loop of \<^verbatim>\<open>WrapProject\<close> over \<^verbatim>\<open>m.Meta.LocalGopaths\<close> for one local
  dependency \<open>sub\<close>: the first gopath under which the candidate directory exists is
  loaded; a load error is returned from \<^verbatim>\<open>WrapProject\<close>; \<open>Inr None\<close> is the loop
  running out with no candidate found.
\<close>

fun find_sub ::
  "('c, 'd) kdep_env \<Rightarrow> string \<Rightarrow> string \<Rightarrow> string list \<Rightarrow>
   error + ('c dep_Project \<times> string) option"
where
  "find_sub E root sub [] = Inr None"
| "find_sub E root sub (path # paths) =
     (let candidate = Join E [root, path, ''src'', sub] in
      if Stat E candidate then
        (case LoadProject E candidate of
           Inl err \<Rightarrow> Inl err
         | Inr proj \<Rightarrow> Inr (Some (proj\<lparr>p_ImportRoot := sub\<rparr>, candidate)))
      else find_sub E root sub paths)"

text \<open>
  The outer loop over \<^verbatim>\<open>m.Meta.LocalDeps\<close>.  The slice \<^verbatim>\<open>sps\<close> is made with one nil
  slot per local dependency and slot \<open>i\<close> is assigned only when a candidate is found,
  so it grows here by one entry per iteration: \<open>Some proj\<close> when found, \<open>None\<close> (the
  slot left nil) when not.
\<close>

fun load_subs ::
  "('c, 'd) kdep_env \<Rightarrow> string \<Rightarrow> string list \<Rightarrow> string list \<Rightarrow>
   'c dep_Project option list \<times> (string \<rightharpoonup> 'c dep_Manifest option) \<times> (string \<rightharpoonup> string) \<Rightarrow>
   error + 'c dep_Project option list \<times> (string \<rightharpoonup> 'c dep_Manifest option) \<times> (string \<rightharpoonup> string)"
where
  "load_subs E root gopaths [] acc = Inr acc"
| "load_subs E root gopaths (sub # subs) (sps, sms, extra) =
     (case find_sub E root sub gopaths of
        Inl err \<Rightarrow> Inl err
      | Inr None \<Rightarrow> load_subs E root gopaths subs (sps @ [None], sms, extra)
      | Inr (Some (proj, candidate)) \<Rightarrow>
          load_subs E root gopaths subs
            (sps @ [Some proj],
             sms(p_ImportRoot proj \<mapsto> p_Manifest proj),
             extra(p_ImportRoot proj \<mapsto> candidate)))"

text \<open>
  \<^verbatim>\<open>WrapProject(p, c)\<close>.  The package-level variable \<^verbatim>\<open>FallbackToDep\<close> is the
  boolean passed in and returned.  In kdep mode a nil \<open>p\<close> is dereferenced
  (\<^verbatim>\<open>p.ResolvedAbsRoot\<close>, \<^verbatim>\<open>p.AbsRoot\<close>).  The context \<open>c\<close> is there (not nil);
  what is used of it is its \<^verbatim>\<open>LoadProject\<close>.
\<close>

definition WrapProject ::
  "('c, 'd) kdep_env \<Rightarrow> bool \<Rightarrow> 'c dep_Project option \<Rightarrow>
   (error + ('c, 'd) Project) outcome \<times> bool"
where
  "WrapProject E FallbackToDep p =
     (let m = manifestFromProject E p;
          FallbackToDep =
            (if \<not> FallbackToDep \<and>
                (case m of None \<Rightarrow> True
                 | Some m \<Rightarrow> \<not> IsKdepRoot (km_Meta m) \<and> \<not> IsKdepChild (km_Meta m))
             then True else FallbackToDep)
      in
      if FallbackToDep then
        (let m = (case p of Some dp \<Rightarrow> WrapManifest E (p_Manifest dp)
                  | None \<Rightarrow> WrapManifest E None)
         in (Returns (Inr \<lparr> k_Project = p, k_Manifest = m, SubProjects = [],
                            extraVendorEntries = Map.empty \<rparr>), FallbackToDep))
      else
        (case m of
           None \<Rightarrow> (Panics, FallbackToDep)
         | Some m \<Rightarrow>
             if \<not> IsKdepRoot (km_Meta m) then
               (Returns (Inl (ErrNew ''not a kdep root'')), FallbackToDep)
             else
               (case p of
                  None \<Rightarrow> (Panics, FallbackToDep)
                | Some dp \<Rightarrow>
                    (case load_subs E (p_ResolvedAbsRoot dp) (LocalGopaths (km_Meta m))
                            (LocalDeps (km_Meta m)) ([], Map.empty, Map.empty) of
                       Inl err \<Rightarrow> (Returns (Inl err), FallbackToDep)
                     | Inr (sps, sms, extra) \<Rightarrow>
                         (let b = \<lparr> db_Root = p_AbsRoot dp,
                                    db_Package = p_ImportRoot dp,
                                    db_LocalPackages = LocalDeps (km_Meta m),
                                    db_SkipSubdirs = LocalGopaths (km_Meta m) \<rparr>
                          in case GetPackageDependencies E b of
                               Inl err \<Rightarrow> (Returns (Inl err), FallbackToDep)
                             | Inr deps \<Rightarrow>
                                 (Returns (Inr \<lparr> k_Project = p,
                                     k_Manifest = m\<lparr>SubManifests := sms,
                                                     Dependencies := Some deps\<rparr>,
                                     SubProjects = sps,
                                     extraVendorEntries = extra \<rparr>),
                                  FallbackToDep))))))"

subsection \<open>MakeParams\<close>

text \<open>
  \<^verbatim>\<open>Project.MakeParams\<close>.  The embedded \<^verbatim>\<open>*dep.Project\<close> is dereferenced on both
  paths.
\<close>

definition MakeParams ::
  "('c, 'd) kdep_env \<Rightarrow> bool \<Rightarrow> ('c, 'd) Project \<Rightarrow> ('c, 'd) SolveParameters outcome"
where
  "MakeParams E FallbackToDep p =
     (case k_Project p of
        None \<Rightarrow> Panics
      | Some dp \<Rightarrow>
          if FallbackToDep then Returns (dep_MakeParams E dp)
          else Returns \<lparr> sp_RootDir = p_AbsRoot dp,
                         sp_Manifest = KdepManifest (k_Manifest p),
                         sp_Lock = p_Lock dp \<rparr>)"

subsection \<open>ParseRootPackageTree\<close>

text \<open>
  The clean-up loop deletes the entry at \<open>imp\<close> when, for some local gopath \<open>gp\<close>,
  \<^verbatim>\<open>strings.HasPrefix(imp, ImportRoot + "/" + gp)\<close>; every other entry stays.
\<close>

definition strip_local ::
  "string \<Rightarrow> string list \<Rightarrow> (string \<rightharpoonup> PackageOrErr) \<Rightarrow> (string \<rightharpoonup> PackageOrErr)"
where
  "strip_local root gopaths pkgs =
     (\<lambda>imp. if list_ex (\<lambda>gp. prefix (root @ ''/'' @ gp) imp) gopaths then None
            else pkgs imp)"

text \<open>
  The loop over \<^verbatim>\<open>p.SubProjects\<close> (and, in package main, the same loop over
  \<^verbatim>\<open>w.Projects\<close>): each project's tree is parsed by \<open>parse\<close>, the
  \<^verbatim>\<open>ParseRootPackageTree\<close> of \<^verbatim>\<open>dep.Project\<close>, its error dropped, and every entry of
  it stored into the tree, replacing what was there.  A nil project is dereferenced by
  that method.
\<close>

fun overlay_projects ::
  "('c dep_Project \<Rightarrow> PackageTree \<times> error option) \<Rightarrow> 'c dep_Project option list \<Rightarrow>
   (string \<rightharpoonup> PackageOrErr) \<Rightarrow> (string \<rightharpoonup> PackageOrErr) outcome"
where
  "overlay_projects parse [] pkgs = Returns pkgs"
| "overlay_projects parse (None # subs) pkgs = Panics"
| "overlay_projects parse (Some sub # subs) pkgs =
     (case parse sub of
        (t, _) \<Rightarrow> overlay_projects parse subs (pkgs ++ t_Packages t))"

definition ParseRootPackageTree ::
  "('c, 'd) kdep_env \<Rightarrow> bool \<Rightarrow> ('c, 'd) Project \<Rightarrow> (PackageTree \<times> error option) outcome"
where
  "ParseRootPackageTree E FallbackToDep p =
     (case k_Project p of
        None \<Rightarrow> Panics
      | Some dp \<Rightarrow>
          if FallbackToDep then Returns (dep_ParseRootPackageTree E dp)
          else
            (case dep_ParseRootPackageTree E dp of
               (tree, Some err) \<Rightarrow> Returns (tree, Some err)
             | (tree, None) \<Rightarrow>
                 (case overlay_projects (dep_ParseRootPackageTree E) (SubProjects p)
                         (strip_local (p_ImportRoot dp) (LocalGopaths (km_Meta (k_Manifest p)))
                            (t_Packages tree)) of
                    Panics \<Rightarrow> Panics
                  | Returns pkgs \<Rightarrow> Returns (tree\<lparr>t_Packages := pkgs\<rparr>, None))))"

subsection \<open>The merge on the map objects\<close>

text \<open>
  \<open>ParseRootPackageTree\<close> above reads the trees that the calls return as values.  In
  the source a tree's \<^verbatim>\<open>Packages\<close> is a Go map, a reference: the calls return the
  struct with the reference to the map object that dep holds for the project, and the
  clean-up and the copying update the base's map object in place.  Here a tree is its
  import root and the address of its map (\<open>None\<close> for the nil map of the zero tree), and
  the store gives the entries of every map object.  \<open>deref\<close> reads a returned tree as a
  value.
\<close>

type_synonym addr = nat
type_synonym map_store = "addr \<Rightarrow> (string \<rightharpoonup> PackageOrErr)"

record PackageTreeRef =
  tr_ImportRoot :: string
  tr_Packages :: "addr option"

definition deref :: "map_store \<Rightarrow> PackageTreeRef \<times> error option \<Rightarrow> PackageTree \<times> error option"
where
  "deref h r =
     (case r of
        (t, e) \<Rightarrow>
          (\<lparr> t_ImportRoot = tr_ImportRoot t,
             t_Packages = (case tr_Packages t of None \<Rightarrow> Map.empty | Some b \<Rightarrow> h b) \<rparr>, e))"

text \<open>
  The loop over \<^verbatim>\<open>p.SubProjects\<close> on the store; \<open>a\<close> is the base's map.  Every entry
  of the sub-project's map, as the store has it when the loop reaches it, is assigned
  into the base's map.  A range over a nil map does nothing; an assignment into a nil map
  panics.
\<close>

fun overlay_projects_store ::
  "('c dep_Project \<Rightarrow> PackageTreeRef \<times> error option) \<Rightarrow> 'c dep_Project option list \<Rightarrow>
   addr option \<Rightarrow> map_store \<Rightarrow> map_store outcome"
where
  "overlay_projects_store parse [] a h = Returns h"
| "overlay_projects_store parse (None # subs) a h = Panics"
| "overlay_projects_store parse (Some sub # subs) a h =
     (case parse sub of
        (t, _) \<Rightarrow>
          (case tr_Packages t of
             None \<Rightarrow> overlay_projects_store parse subs a h
           | Some b \<Rightarrow>
               (case a of
                  None \<Rightarrow>
                    if h b = Map.empty then overlay_projects_store parse subs a h
                    else Panics
                | Some a' \<Rightarrow>
                    overlay_projects_store parse subs a (h(a' := h a' ++ h b)))))"

text \<open>
  \<^verbatim>\<open>Project.ParseRootPackageTree\<close> on the store: the result is the returned tree and
  error, and the store after the call.  \<^verbatim>\<open>delete\<close> on a nil map does nothing.
\<close>

definition ParseRootPackageTree_store ::
  "('c dep_Project \<Rightarrow> PackageTreeRef \<times> error option) \<Rightarrow> map_store \<Rightarrow> bool \<Rightarrow>
   ('c, 'd) Project \<Rightarrow> ((PackageTreeRef \<times> error option) \<times> map_store) outcome"
where
  "ParseRootPackageTree_store parse h FallbackToDep p =
     (case k_Project p of
        None \<Rightarrow> Panics
      | Some dp \<Rightarrow>
          if FallbackToDep then Returns (parse dp, h)
          else
            (case parse dp of
               (tree, Some err) \<Rightarrow> Returns ((tree, Some err), h)
             | (tree, None) \<Rightarrow>
                 (let h = (case tr_Packages tree of
                             None \<Rightarrow> h
                           | Some a \<Rightarrow>
                               h(a := strip_local (p_ImportRoot dp)
                                        (LocalGopaths (km_Meta (k_Manifest p))) (h a)))
                  in case overlay_projects_store parse (SubProjects p) (tr_Packages tree) h of
                       Panics \<Rightarrow> Panics
                     | Returns h' \<Rightarrow> Returns ((tree, None), h'))))"

subsection \<open>The Godeps export\<close>

text \<open>
  \<^verbatim>\<open>godeps.dumpToFile\<close>: the dependencies are sorted by import path under
  \<^verbatim>\<open>strings.Compare\<close> (the byte-wise lexicographic order, which is the order of
  \<open>string\<close> here), the struct is marshalled and the bytes are written.  The result is the
  returned error and the file written, if any.  \<^verbatim>\<open>sort.Slice\<close> leaves the relative order of
  entries with equal import paths to its algorithm; the insertion sort here fixes one.
\<close>

definition dumpToFile ::
  "('c, 'd) kdep_env \<Rightarrow> godeps \<Rightarrow> string \<Rightarrow> error option \<times> (string \<times> string) option"
where
  "dumpToFile E gd fname =
     (let gd = gd\<lparr>gd_Deps := sort_key d_ImportPath (gd_Deps gd)\<rparr> in
      case MarshalIndent E gd of
        Inl err \<Rightarrow> (Some err, None)
      | Inr js \<Rightarrow> (WriteFile E fname js, Some (fname, js)))"

text \<open>The slice \<^verbatim>\<open>deps\<close> that \<^verbatim>\<open>HackGodepsCompat\<close> appends to, project by project.\<close>

definition solution_deps :: "('c, 'd) kdep_env \<Rightarrow> Solution \<Rightarrow> dependency list" where
  "solution_deps E s =
     concat (map (\<lambda>lp.
       case VersionComponentStrings (lp_Version lp) of
         (rev', _, ver) \<Rightarrow>
           map (\<lambda>pkg. \<lparr> d_ImportPath = Join E [lp_ProjectRoot lp, pkg],
                        d_Comment = (if ver \<noteq> [] then ver else []),
                        d_Rev = rev' \<rparr>)
               (lp_Packages lp)) s)"

definition HackGodepsCompat ::
  "('c, 'd) kdep_env \<Rightarrow> bool \<Rightarrow> ('c, 'd) Project \<Rightarrow> Solution \<Rightarrow>
   (error option \<times> (string \<times> string) option) outcome"
where
  "HackGodepsCompat E FallbackToDep p s =
     (if FallbackToDep \<or> \<not> GodepCompat (km_Meta (k_Manifest p)) then Returns (None, None)
      else
        (case k_Project p of
           None \<Rightarrow> Panics
         | Some dp \<Rightarrow>
             (let godepsJSONPath = Join E [p_AbsRoot dp, ''Godeps'', ''Godeps.json''];
                  gd = \<lparr> gd_Comment = ''GENERATED BY DEP, DO NOT EDIT'',
                         gd_ImportPath = p_ImportRoot dp,
                         gd_Deps = solution_deps E s \<rparr>
              in Returns (dumpToFile E gd godepsJSONPath))))"

section \<open>The workspace (package main)\<close>

record 'c Workspace =
  w_AbsRoot :: string
  w_Lock :: "Lock option"
  w_Manifest :: "Manifest option"
  w_Projects :: "'c dep_Project option list"

record Ctx =
  WorkingDir :: string
  Verbose :: bool

text \<open>
  \<^verbatim>\<open>gps.SolveParameters\<close> as the workspace command fills it: the workspace itself is
  the root manifest the solver queries.
\<close>

record 'c ws_SolveParameters =
  wsp_RootDir :: string
  wsp_Manifest :: "'c Workspace"
  wsp_Lock :: "Lock option"
  wsp_TraceLogger :: bool
  wsp_RootPackageTree :: PackageTree

text \<open>
  What the workspace command calls outside the source file.  \<open>r_fs\<close> gives the bytes of
  the file at a path, or the error of opening or reading it; \<open>r_LoadProject\<close> is
  \<^verbatim>\<open>ctx.LoadProject\<close> at the given working directory; \<open>SourceManager\<close> is the error of
  \<^verbatim>\<open>ctx.SourceManager()\<close>, if any; \<open>checkErrors\<close> is the function of that name in
  the command package; \<open>Prepare\<close> and \<open>Solve\<close> are the gps solver; the last three
  are the safe writer of dep.  \<open>'slv\<close> is the prepared solver, \<open>'sw\<close> the safe writer.
\<close>

record ('c, 'slv, 'sw) run_env =
  r_flags :: gps_prune_flags
  r_Unmarshal :: "string \<Rightarrow> error + rawManifest"
  r_Join :: "string list \<Rightarrow> string"
  r_fs :: "string \<Rightarrow> error + string"
  LockName :: string
  ReadLock :: "string \<Rightarrow> error + Lock"
  r_LoadProject :: "string \<Rightarrow> error + 'c dep_Project"
  SourceManager :: "error option"
  ValidateProjectRoots :: "'c dep_Manifest option \<Rightarrow> error option"
  r_ParseRootPackageTree :: "'c dep_Project \<Rightarrow> PackageTree \<times> error option"
  dep_IgnoredPackages :: "'c dep_Manifest option \<Rightarrow> string list"
  checkErrors :: "(string \<rightharpoonup> PackageOrErr) \<Rightarrow> string list \<Rightarrow> bool \<times> error option"
  ValidateParams :: "'c ws_SolveParameters \<Rightarrow> error option"
  Prepare :: "'c ws_SolveParameters \<Rightarrow> error + 'slv"
  Solve :: "'slv \<Rightarrow> error + Solution"
  handleAllTheFailuresOfTheWorld :: "error \<Rightarrow> error"
  NewSafeWriter :: "Lock option \<Rightarrow> Solution \<Rightarrow> CascadingPruneOptions \<Rightarrow> error + 'sw"
  PrintPreparedActions :: "'sw \<Rightarrow> error option"
  Write :: "'sw \<Rightarrow> string \<Rightarrow> error option"

subsection \<open>Loading the workspace\<close>

definition NewLock :: "('c, 'slv, 'sw) run_env \<Rightarrow> string \<Rightarrow> Lock option" where
  "NewLock E root =
     (let mp = r_Join E [root, LockName E] in
      case r_fs E mp of
        Inl err \<Rightarrow> None
      | Inr buf \<Rightarrow> (case ReadLock E buf of Inl _ \<Rightarrow> None | Inr l \<Rightarrow> Some l))"

text \<open>
  \<^verbatim>\<open>Manifest.getProjects\<close>: one slot per package; the load error is dropped, so a
  package that does not load leaves the nil project in its slot.  The method reads
  \<^verbatim>\<open>m.Packages\<close> through its receiver, which \<^verbatim>\<open>NewWorkspace\<close> may pass as nil.
\<close>

definition getProjects ::
  "('c, 'slv, 'sw) run_env \<Rightarrow> Manifest \<Rightarrow> Ctx \<Rightarrow> 'c dep_Project option list"
where
  "getProjects E m ctx =
     (let wd = WorkingDir ctx in
      map (\<lambda>pck. case r_LoadProject E (r_Join E [wd, Path pck]) of
                   Inl _ \<Rightarrow> None
                 | Inr p \<Rightarrow> Some p)
          (m_Packages m))"

definition NewWorkspace ::
  "('c, 'slv, 'sw) run_env \<Rightarrow> Ctx \<Rightarrow> 'c Workspace outcome"
where
  "NewWorkspace E ctx =
     (let m = NewManifest (r_flags E) (r_Unmarshal E) (r_Join E) (r_fs E) (WorkingDir ctx);
          l = NewLock E (WorkingDir ctx)
      in case m of
           None \<Rightarrow> Panics
         | Some m' \<Rightarrow>
             Returns \<lparr> w_AbsRoot = WorkingDir ctx, w_Lock = l, w_Manifest = m,
                       w_Projects = getProjects E m' ctx \<rparr>)"

subsection \<open>Aggregating constraints\<close>

text \<open>
  The inner loop of \<^verbatim>\<open>DependencyConstraints\<close> and of \<^verbatim>\<open>Overrides\<close> over the
  entries of one manifest's map.  When the root is already in the table, the source
  intersects into \<^verbatim>\<open>p\<close>, the copy of the table's struct that the lookup returned, and
  does not store \<^verbatim>\<open>p\<close> back: the table is left as it was.
\<close>

fun merge_extra ::
  "('c \<Rightarrow> 'c \<Rightarrow> 'c) \<Rightarrow> (ProjectRoot \<times> 'c ProjectProperties) list \<Rightarrow>
   'c ProjectConstraints \<Rightarrow> 'c ProjectConstraints"
where
  "merge_extra Intersect [] constraints = constraints"
| "merge_extra Intersect ((root, props) # extra) constraints =
     (case constraints root of
        Some p \<Rightarrow>
          (let p = p\<lparr>Constraint := Intersect (Constraint p) (Constraint props)\<rparr>
           in merge_extra Intersect extra constraints)
      | None \<Rightarrow> merge_extra Intersect extra (constraints(root \<mapsto> props)))"

text \<open>
  The outer loop over \<^verbatim>\<open>w.Projects\<close>; \<open>sel\<close> is the manifest's map.  A nil project,
  or a nil manifest, is dereferenced.
\<close>

fun aggregate ::
  "('c \<Rightarrow> 'c \<Rightarrow> 'c) \<Rightarrow> ('c dep_Manifest \<Rightarrow> (ProjectRoot \<times> 'c ProjectProperties) list) \<Rightarrow>
   'c dep_Project option list \<Rightarrow> 'c ProjectConstraints \<Rightarrow> 'c ProjectConstraints outcome"
where
  "aggregate Intersect sel [] constraints = Returns constraints"
| "aggregate Intersect sel (None # ps) constraints = Panics"
| "aggregate Intersect sel (Some p # ps) constraints =
     (case p_Manifest p of
        None \<Rightarrow> Panics
      | Some m \<Rightarrow> aggregate Intersect sel ps (merge_extra Intersect (sel m) constraints))"

definition DependencyConstraints ::
  "('c \<Rightarrow> 'c \<Rightarrow> 'c) \<Rightarrow> 'c Workspace \<Rightarrow> 'c ProjectConstraints outcome"
where
  "DependencyConstraints Intersect w = aggregate Intersect Constraints (w_Projects w) Map.empty"

definition Overrides ::
  "('c \<Rightarrow> 'c \<Rightarrow> 'c) \<Rightarrow> 'c Workspace \<Rightarrow> 'c ProjectConstraints outcome"
where
  "Overrides Intersect w = aggregate Intersect Ovr (w_Projects w) Map.empty"

subsection \<open>Solve parameters and the root package tree\<close>

definition ws_MakeParams :: "'c Workspace \<Rightarrow> 'c ws_SolveParameters" where
  "ws_MakeParams w =
     \<lparr> wsp_RootDir = w_AbsRoot w,
       wsp_Manifest = w,
       wsp_Lock = w_Lock w,
       wsp_TraceLogger = False,
       wsp_RootPackageTree = \<lparr> t_ImportRoot = [], t_Packages = Map.empty \<rparr> \<rparr>"

definition ws_ParseRootPackageTree ::
  "('c, 'slv, 'sw) run_env \<Rightarrow> 'c Workspace \<Rightarrow> (PackageTree \<times> error option) outcome"
where
  "ws_ParseRootPackageTree E w =
     (case overlay_projects (r_ParseRootPackageTree E) (w_Projects w) Map.empty of
        Panics \<Rightarrow> Panics
      | Returns pkgs \<Rightarrow>
          Returns (\<lparr> t_ImportRoot = w_AbsRoot w, t_Packages = pkgs \<rparr>, None))"

subsection \<open>The workspace command\<close>

text \<open>The loop of \<^verbatim>\<open>Run\<close> that validates each project's manifest.\<close>

fun validate_roots ::
  "('c, 'slv, 'sw) run_env \<Rightarrow> 'c dep_Project option list \<Rightarrow> error option outcome"
where
  "validate_roots E [] = Returns None"
| "validate_roots E (None # ps) = Panics"
| "validate_roots E (Some p # ps) =
     (case ValidateProjectRoots E (p_Manifest p) of
        Some err \<Rightarrow> Returns (Some err)
      | None \<Rightarrow> validate_roots E ps)"

text \<open>
  The loop of \<^verbatim>\<open>Run\<close> that calls \<^verbatim>\<open>checkErrors\<close> on the root package tree once per
  project: an error flagged fatal is returned; any other is at most printed.
\<close>

fun check_projects ::
  "('c, 'slv, 'sw) run_env \<Rightarrow> (string \<rightharpoonup> PackageOrErr) \<Rightarrow> 'c dep_Project option list \<Rightarrow>
   error option outcome"
where
  "check_projects E pkgs [] = Returns None"
| "check_projects E pkgs (None # ps) = Panics"
| "check_projects E pkgs (Some p # ps) =
     (case checkErrors E pkgs (dep_IgnoredPackages E (p_Manifest p)) of
        (fatal, Some err) \<Rightarrow>
          if fatal then Returns (Some err) else check_projects E pkgs ps
      | (fatal, None) \<Rightarrow> check_projects E pkgs ps)"

text \<open>
  The end of \<^verbatim>\<open>Run\<close>, from \<^verbatim>\<open>dep.NewSafeWriter\<close> on.  The closing loop of symlinks
  drops its errors and has no part in the returned value.
\<close>

definition write_back ::
  "('c, 'slv, 'sw) run_env \<Rightarrow> bool \<Rightarrow> 'c Workspace \<Rightarrow> Solution \<Rightarrow> error option outcome"
where
  "write_back E dryRun w solution =
     (case w_Manifest w of
        None \<Rightarrow> Panics
      | Some m \<Rightarrow>
          (case NewSafeWriter E (w_Lock w) solution (m_PruneOptions m) of
             Inl err \<Rightarrow> Returns (Some err)
           | Inr sw \<Rightarrow>
               if dryRun then Returns (PrintPreparedActions E sw)
               else
                 (case Write E sw (w_AbsRoot w) of
                    Some err \<Rightarrow>
                      Returns (Some (ErrWrap err ''grouped write of manifest, lock and vendor''))
                  | None \<Rightarrow> Returns None)))"

text \<open>
  \<^verbatim>\<open>workspaceCommand.Run\<close>; \<open>dryRun\<close> is the command's flag.  The result is the
  returned error, \<open>None\<close> for nil.  \<^verbatim>\<open>NewWorkspace\<close> always returns a nil error.
\<close>

definition Run ::
  "('c, 'slv, 'sw) run_env \<Rightarrow> bool \<Rightarrow> Ctx \<Rightarrow> string list \<Rightarrow> error option outcome"
where
  "Run E dryRun ctx args =
     (case NewWorkspace E ctx of
        Panics \<Rightarrow> Panics
      | Returns w \<Rightarrow>
     (case SourceManager E of
        Some err \<Rightarrow> Returns (Some err)
      | None \<Rightarrow>
     (case validate_roots E (w_Projects w) of
        Panics \<Rightarrow> Panics
      | Returns (Some err) \<Rightarrow> Returns (Some err)
      | Returns None \<Rightarrow>
     (let params = ws_MakeParams w;
          params = (if Verbose ctx then params\<lparr>wsp_TraceLogger := True\<rparr> else params)
      in
      case ws_ParseRootPackageTree E w of
        Panics \<Rightarrow> Panics
      | Returns (tree, Some err) \<Rightarrow> Returns (Some err)
      | Returns (tree, None) \<Rightarrow>
     (let params = params\<lparr>wsp_RootPackageTree := tree\<rparr> in
      case check_projects E (t_Packages tree) (w_Projects w) of
        Panics \<Rightarrow> Panics
      | Returns (Some err) \<Rightarrow> Returns (Some err)
      | Returns None \<Rightarrow>
          if args \<noteq> [] then
            Returns (Some (ErrNew
              ''dep workspace only takes spec arguments with -add or -update''))
          else
     (case ValidateParams E params of
        Some err \<Rightarrow> Returns (Some err)
      | None \<Rightarrow>
     (case Prepare E params of
        Inl err \<Rightarrow> Returns (Some (ErrWrap err ''prepare solver''))
      | Inr solver \<Rightarrow>
     (case Solve E solver of
        Inl err \<Rightarrow> Returns (Some (handleAllTheFailuresOfTheWorld E err))
      | Inr solution \<Rightarrow> write_back E dryRun w solution))))))))"

section \<open>A constraint type for the examples\<close>

text \<open>
  Modelled from the spec: the constraint type of gps, which is outside the source file.
  The spec's data model has a constraint as a predicate over versions, with the wildcard
  and the exact version among its kinds, and \<^verbatim>\<open>Intersect\<close> returning the most
  restrictive constraint satisfying both, the empty one when they are incompatible.  The
  functions above take the intersection as a parameter; this instance is used where a
  function is evaluated at a concrete input.
\<close>

datatype VConstraint = AnyVersion | NoVersion | ExactVersion string

fun Intersect :: "VConstraint \<Rightarrow> VConstraint \<Rightarrow> VConstraint" where
  "Intersect AnyVersion c = c"
| "Intersect NoVersion c = NoVersion"
| "Intersect (ExactVersion v) AnyVersion = ExactVersion v"
| "Intersect (ExactVersion v) NoVersion = NoVersion"
| "Intersect (ExactVersion v) (ExactVersion v') =
     (if v = v' then ExactVersion v else NoVersion)"

section \<open>Notions used in the statements\<close>

text \<open>
  The manifests of a list of projects, in order; \<open>None\<close> when a project or its manifest
  is nil.
\<close>

fun manifests_of :: "'c dep_Project option list \<Rightarrow> 'c dep_Manifest list option" where
  "manifests_of [] = Some []"
| "manifests_of (None # ps) = None"
| "manifests_of (Some p # ps) =
     (case p_Manifest p of
        None \<Rightarrow> None
      | Some m \<Rightarrow> (case manifests_of ps of None \<Rightarrow> None | Some ms \<Rightarrow> Some (m # ms)))"

text \<open>The key invariant of a package tree: every key has the import root as a prefix.\<close>

definition keys_under_ImportRoot :: "PackageTree \<Rightarrow> bool" where
  "keys_under_ImportRoot t = (\<forall>imp\<in>dom (t_Packages t). prefix (t_ImportRoot t) imp)"

section \<open>Concrete inputs\<close>

text \<open>
  Data for evaluating the functions: a package entry, a project at an import root, a
  kdep root manifest with one local dependency and one local gopath, and collaborators
  that are as plain as possible.  \<open>ex_env\<close> leaves open which projects have a kdep
  manifest, which directories exist and what the projects' trees are.
\<close>

definition ex_pkg :: "string \<Rightarrow> string list \<Rightarrow> PackageOrErr" where
  "ex_pkg path imports =
     \<lparr> poe_P = \<lparr> pkg_Name = ''main'', pkg_ImportPath = path, pkg_Imports = imports,
                 pkg_TestImports = [] \<rparr>,
       poe_Err = None \<rparr>"

definition ex_project ::
  "string \<Rightarrow> (ProjectRoot \<times> VConstraint ProjectProperties) list \<Rightarrow> VConstraint dep_Project"
where
  "ex_project root cs =
     \<lparr> p_AbsRoot = ''/src/'' @ root, p_ResolvedAbsRoot = ''/src/'' @ root,
       p_ImportRoot = root,
       p_Manifest = Some \<lparr> Constraints = cs, Ovr = cs, Ignored = [], Required = [] \<rparr>,
       p_Lock = None \<rparr>"

definition ex_root_manifest :: "(VConstraint, unit) kdep_Manifest" where
  "ex_root_manifest =
     \<lparr> km_Manifest = None,
       km_Meta = \<lparr> IsKdepRoot = True, IsKdepChild = False, LocalDeps = [''lib''],
                   LocalGopaths = [''gopath''], GodepCompat = True \<rparr>,
       SubManifests = Map.empty,
       Dependencies = None \<rparr>"

fun ex_join :: "string list \<Rightarrow> string" where
  "ex_join [] = []"
| "ex_join [x] = x"
| "ex_join (x # y # ys) = x @ ''/'' @ ex_join (y # ys)"

definition ex_env ::
  "(VConstraint dep_Project option \<Rightarrow> (VConstraint, unit) kdep_Manifest option) \<Rightarrow>
   (string \<Rightarrow> bool) \<Rightarrow> (VConstraint dep_Project \<Rightarrow> PackageTree \<times> error option) \<Rightarrow>
   (VConstraint, unit) kdep_env"
where
  "ex_env mf stat parse =
     \<lparr> manifestFromProject = mf,
       WrapManifest = (\<lambda>m. \<lparr> km_Manifest = m,
                              km_Meta = \<lparr> IsKdepRoot = False, IsKdepChild = False,
                                          LocalDeps = [], LocalGopaths = [],
                                          GodepCompat = False \<rparr>,
                              SubManifests = Map.empty,
                              Dependencies = None \<rparr>),
       Join = ex_join,
       Stat = stat,
       LoadProject = (\<lambda>dir. Inr (ex_project dir [])),
       GetPackageDependencies = (\<lambda>b. Inr ()),
       dep_ParseRootPackageTree = parse,
       dep_MakeParams = (\<lambda>dp. \<lparr> sp_RootDir = p_AbsRoot dp,
                                  sp_Manifest = DepManifest (p_Manifest dp),
                                  sp_Lock = p_Lock dp \<rparr>),
       MarshalIndent = (\<lambda>gd. Inr (gd_ImportPath gd @
                          concat (map (\<lambda>d. '' '' @ d_ImportPath d @ ''@'' @ d_Rev d)
                                      (gd_Deps gd)))),
       WriteFile = (\<lambda>fname js. None) \<rparr>"

text \<open>Only the project at import root \<open>kroot\<close> has a kdep manifest.\<close>

definition ex_manifestFromProject ::
  "VConstraint dep_Project option \<Rightarrow> (VConstraint, unit) kdep_Manifest option"
where
  "ex_manifestFromProject p =
     (case p of
        None \<Rightarrow> None
      | Some dp \<Rightarrow> if p_ImportRoot dp = ''kroot'' then Some ex_root_manifest else None)"

definition ex_workspace :: "VConstraint dep_Project option list \<Rightarrow> VConstraint Workspace" where
  "ex_workspace ps =
     \<lparr> w_AbsRoot = ''/ws'', w_Lock = None, w_Manifest = None, w_Projects = ps \<rparr>"

text \<open>
  The trees of the example projects: \<open>lib\<close> and \<open>lib/sub\<close> both have an entry at
  \<open>lib/sub\<close>, with different content; every other project has its root package and a
  package under its local gopath.
\<close>

definition ex_parse :: "VConstraint dep_Project \<Rightarrow> PackageTree \<times> error option" where
  "ex_parse dp =
     (if p_ImportRoot dp = ''lib'' then
        (\<lparr> t_ImportRoot = ''lib'',
           t_Packages = [''lib/sub'' \<mapsto> ex_pkg ''lib/sub'' [''fmt'']] \<rparr>, None)
      else if p_ImportRoot dp = ''lib/sub'' then
        (\<lparr> t_ImportRoot = ''lib/sub'',
           t_Packages = [''lib/sub'' \<mapsto> ex_pkg ''lib/sub'' [''os'']] \<rparr>, None)
      else
        (\<lparr> t_ImportRoot = p_ImportRoot dp,
           t_Packages = [p_ImportRoot dp \<mapsto> ex_pkg (p_ImportRoot dp) [''lib''],
                         p_ImportRoot dp @ ''/gopath/src/lib'' \<mapsto>
                           ex_pkg (p_ImportRoot dp @ ''/gopath/src/lib'') []] \<rparr>, None))"

definition ex_kdep_project ::
  "VConstraint dep_Project option list \<Rightarrow> (VConstraint, unit) Project" where
  "ex_kdep_project subs =
     \<lparr> k_Project = Some (ex_project ''kroot'' []), k_Manifest = ex_root_manifest,
       SubProjects = subs, extraVendorEntries = Map.empty \<rparr>"

text \<open>
  Collaborators of the workspace command that accept everything; which projects load,
  what their trees are and what the solver answers is left open.  The prepared solver is
  the parameters it was prepared with, and the safe writer is the solution.
\<close>

definition ex_run_env ::
  "(string \<Rightarrow> error + VConstraint dep_Project) \<Rightarrow>
   (VConstraint dep_Project \<Rightarrow> PackageTree \<times> error option) \<Rightarrow>
   (VConstraint ws_SolveParameters \<Rightarrow> error + Solution) \<Rightarrow>
   (VConstraint, VConstraint ws_SolveParameters, Solution) run_env"
where
  "ex_run_env load parse solve =
     \<lparr> r_flags = \<lparr> PruneNestedVendorDirs = 1, PruneGoTestFiles = 8,
                   PruneUnusedPackages = 2 \<rparr>,
       r_Unmarshal = (\<lambda>buf. Inr \<lparr> raw_Packages = [\<lparr> Name = ''a'', Path = ''a'' \<rparr>,
                                                    \<lparr> Name = ''b'', Path = ''b'' \<rparr>] \<rparr>),
       r_Join = ex_join,
       r_fs = (\<lambda>path. Inr []),
       LockName = ''Gopkg.lock'',
       ReadLock = (\<lambda>buf. Inr []),
       r_LoadProject = load,
       SourceManager = None,
       ValidateProjectRoots = (\<lambda>m. None),
       r_ParseRootPackageTree = parse,
       dep_IgnoredPackages = (\<lambda>m. case m of None \<Rightarrow> [] | Some m \<Rightarrow> Ignored m),
       checkErrors = (\<lambda>pkgs ig. (False, None)),
       ValidateParams = (\<lambda>params. None),
       Prepare = (\<lambda>params. Inr params),
       Solve = solve,
       handleAllTheFailuresOfTheWorld = (\<lambda>err. err),
       NewSafeWriter = (\<lambda>l solution po. Inr solution),
       PrintPreparedActions = (\<lambda>sw. None),
       Write = (\<lambda>sw root. None) \<rparr>"

text \<open>A solution of two locked projects, listed with \<open>z\<close> before \<open>a\<close>.\<close>

definition ex_solution :: Solution where
  "ex_solution =
     [\<lparr> lp_ProjectRoot = ''z'',
        lp_Version = \<lparr> v_rev = ''r1'', v_branch = [], v_ver = ''v1.0.0'' \<rparr>,
        lp_Packages = [''pkg''] \<rparr>,
      \<lparr> lp_ProjectRoot = ''a'',
        lp_Version = \<lparr> v_rev = ''r2'', v_branch = ''master'', v_ver = [] \<rparr>,
        lp_Packages = [''y'', ''x''] \<rparr>]"

text \<open>
  The two member projects of the workspace at \<open>/ws\<close>: their manifests declare the
  root \<open>lib\<close> with the exact versions 1.0.0 and 2.0.0.
\<close>

definition ex_load :: "string \<Rightarrow> error + VConstraint dep_Project" where
  "ex_load dir =
     (if dir = ''/ws/a'' then
        Inr (ex_project ''a''
               [(''lib'', \<lparr> Source = [], Constraint = ExactVersion ''1.0.0'' \<rparr>)])
      else
        Inr (ex_project ''b''
               [(''lib'', \<lparr> Source = [], Constraint = ExactVersion ''2.0.0'' \<rparr>)]))"



section \<open>Auxiliary facts\<close>

lemma merge_extra_map_add:
  "merge_extra I extra t = map_of extra ++ t"
proof (induction extra arbitrary: t)
  case Nil
  then show ?case by simp
next
  case (Cons e extra)
  obtain root props where e: "e = (root, props)" by (cases e)
  show ?case
  proof (cases "t root")
    case None
    then show ?thesis
      by (auto simp: e Cons.IH map_add_def fun_eq_iff split: option.splits)
  next
    case (Some p)
    then show ?thesis
      by (auto simp: e Cons.IH map_add_def fun_eq_iff Let_def split: option.splits)
  qed
qed

lemma aggregate_first_wins:
  "aggregate I sel ps t =
     (case manifests_of ps of
        None \<Rightarrow> Panics
      | Some ms \<Rightarrow> Returns (map_of (concat (map sel ms)) ++ t))"
proof (induction ps arbitrary: t)
  case Nil
  then show ?case by simp
next
  case (Cons a ps)
  show ?case
  proof (cases a)
    case None
    then show ?thesis by simp
  next
    case (Some p)
    then show ?thesis
      by (cases "p_Manifest p"; cases "manifests_of ps")
         (simp_all add: Cons.IH merge_extra_map_add)
  qed
qed

lemma overlay_projects_Returns:
  "overlay_projects parse subs pkgs = Returns r \<Longrightarrow>
     None \<notin> set subs \<and>
     r = foldl (++) pkgs (map (\<lambda>s. t_Packages (fst (parse (the s)))) subs)"
proof (induction subs arbitrary: pkgs)
  case Nil
  then show ?case by simp
next
  case (Cons a subs)
  show ?case
  proof (cases a)
    case None
    with Cons.prems show ?thesis by simp
  next
    case (Some s)
    with Cons.prems Cons.IH[of "pkgs ++ t_Packages (fst (parse s))"] show ?thesis
      by (auto split: prod.splits)
  qed
qed

lemma dom_foldl_map_add: "dom (foldl (++) m ts) = dom m \<union> (\<Union>t\<in>set ts. dom t)"
  by (induction ts arbitrary: m) auto

lemma foldl_map_add_None:
  "\<forall>t\<in>set ts. t k = None \<Longrightarrow> foldl (++) m ts k = m k"
  by (induction ts arbitrary: m) (simp_all add: map_add_def)

lemma foldl_map_add_find:
  "foldl (++) m ts k =
     (case find (\<lambda>t. t k \<noteq> None) (rev ts) of Some t \<Rightarrow> t k | None \<Rightarrow> m k)"
proof (induction ts rule: rev_induct)
  case Nil
  then show ?case by simp
next
  case (snoc t ts)
  then show ?case by (auto simp: map_add_def split: option.splits)
qed


lemma overlay_store_Returns:
  assumes "overlay_projects_store parse subs (Some a) h = Returns h'"
    and "\<forall>x. x \<noteq> a \<longrightarrow> h x = h0 x"
    and "\<forall>sub. Some sub \<in> set subs \<longrightarrow> tr_Packages (fst (parse sub)) \<noteq> Some a"
  shows "overlay_projects (\<lambda>dp. deref h0 (parse dp)) subs (h a) = Returns (h' a) \<and>
         (\<forall>x. x \<noteq> a \<longrightarrow> h' x = h0 x)"
  using assms
proof (induction subs arbitrary: h)
  case Nil
  then show ?case by simp
next
  case (Cons s subs)
  show ?case
  proof (cases s)
    case None
    with Cons.prems show ?thesis by simp
  next
    case (Some sub)
    obtain t e where pt: "parse sub = (t, e)" by (cases "parse sub")
    have sp: "\<forall>sub. Some sub \<in> set subs \<longrightarrow> tr_Packages (fst (parse sub)) \<noteq> Some a"
      using Cons.prems(3) by simp
    show ?thesis
    proof (cases "tr_Packages t")
      case None
      with Cons.prems(1) \<open>s = Some sub\<close> pt
      have st: "overlay_projects_store parse subs (Some a) h = Returns h'" by simp
      from Cons.IH[OF st Cons.prems(2) sp] \<open>s = Some sub\<close> pt None show ?thesis
        by (simp add: deref_def)
    next
      case (Some b)
      from Cons.prems(3) \<open>s = Some sub\<close> pt Some have ba: "b \<noteq> a" by auto
      from Cons.prems(1) \<open>s = Some sub\<close> pt Some
      have st: "overlay_projects_store parse subs (Some a) (h(a := h a ++ h b)) = Returns h'"
        by simp
      have off: "\<forall>x. x \<noteq> a \<longrightarrow> (h(a := h a ++ h b)) x = h0 x"
        using Cons.prems(2) by simp
      have hb: "h b = h0 b" using Cons.prems(2) ba by simp
      from Cons.IH[OF st off sp] hb \<open>s = Some sub\<close> pt Some show ?thesis
        by (simp add: deref_def)
    qed
  qed
qed

lemma overlay_store_Panics:
  assumes "overlay_projects_store parse subs (Some a) h = Panics"
    and "\<forall>x. x \<noteq> a \<longrightarrow> h x = h0 x"
    and "\<forall>sub. Some sub \<in> set subs \<longrightarrow> tr_Packages (fst (parse sub)) \<noteq> Some a"
  shows "overlay_projects (\<lambda>dp. deref h0 (parse dp)) subs (h a) = Panics"
  using assms
proof (induction subs arbitrary: h)
  case Nil
  then show ?case by simp
next
  case (Cons s subs)
  show ?case
  proof (cases s)
    case None
    then show ?thesis by simp
  next
    case (Some sub)
    obtain t e where pt: "parse sub = (t, e)" by (cases "parse sub")
    have sp: "\<forall>sub. Some sub \<in> set subs \<longrightarrow> tr_Packages (fst (parse sub)) \<noteq> Some a"
      using Cons.prems(3) by simp
    show ?thesis
    proof (cases "tr_Packages t")
      case None
      with Cons.prems(1) \<open>s = Some sub\<close> pt
      have st: "overlay_projects_store parse subs (Some a) h = Panics" by simp
      from Cons.IH[OF st Cons.prems(2) sp] \<open>s = Some sub\<close> pt None show ?thesis
        by (simp add: deref_def)
    next
      case (Some b)
      from Cons.prems(3) \<open>s = Some sub\<close> pt Some have ba: "b \<noteq> a" by auto
      from Cons.prems(1) \<open>s = Some sub\<close> pt Some
      have st: "overlay_projects_store parse subs (Some a) (h(a := h a ++ h b)) = Panics"
        by simp
      have off: "\<forall>x. x \<noteq> a \<longrightarrow> (h(a := h a ++ h b)) x = h0 x"
        using Cons.prems(2) by simp
      have hb: "h b = h0 b" using Cons.prems(2) ba by simp
      from Cons.IH[OF st off sp] hb \<open>s = Some sub\<close> pt Some show ?thesis
        by (simp add: deref_def)
    qed
  qed
qed

section \<open>Aggregated constraints\<close>

text \<open>
  The table returned by \<open>DependencyConstraints\<close> is the first declaration of each root,
  in project order: nothing of a later declaration reaches it.
\<close>

lemma DependencyConstraints_first_declaration:
  "DependencyConstraints I w =
     (case manifests_of (w_Projects w) of
        None \<Rightarrow> Panics
      | Some ms \<Rightarrow> Returns (map_of (concat (map Constraints ms))))"
  by (simp add: DependencyConstraints_def aggregate_first_wins split: option.splits)

text \<open>
  Claim C1, evaluated.  Two member manifests declare the root \<open>lib\<close>, the first with
  the wildcard and the second with the exact version 1.0.0.  Their intersection is the
  exact version; the tables returned by \<open>DependencyConstraints\<close> and by
  \<open>Overrides\<close> both map \<open>lib\<close> to the wildcard of the first manifest.
\<close>

theorem DependencyConstraints_keeps_first_declaration:
  "DependencyConstraints Intersect
     (ex_workspace
        [Some (ex_project ''a'' [(''lib'', \<lparr> Source = [], Constraint = AnyVersion \<rparr>)]),
         Some (ex_project ''b''
                 [(''lib'', \<lparr> Source = [], Constraint = ExactVersion ''1.0.0'' \<rparr>)])])
   = Returns [''lib'' \<mapsto> \<lparr> Source = [], Constraint = AnyVersion \<rparr>]
   \<and> Overrides Intersect
     (ex_workspace
        [Some (ex_project ''a'' [(''lib'', \<lparr> Source = [], Constraint = AnyVersion \<rparr>)]),
         Some (ex_project ''b''
                 [(''lib'', \<lparr> Source = [], Constraint = ExactVersion ''1.0.0'' \<rparr>)])])
   = Returns [''lib'' \<mapsto> \<lparr> Source = [], Constraint = AnyVersion \<rparr>]
   \<and> Intersect AnyVersion (ExactVersion ''1.0.0'') = ExactVersion ''1.0.0''"
  by (simp add: DependencyConstraints_def Overrides_def ex_workspace_def ex_project_def)

text \<open>
  Claim C2, as stated, fails.  The two member manifests declare \<open>lib\<close> with the exact
  versions 1.0.0 and 2.0.0, whose intersection is empty.  Aggregation returns a table (with
  the first declaration), and \<open>Run\<close> goes on to the solver: with a solver that answers a
  solution the command returns nil, and with a solver that fails the command returns the
  solver's error.
\<close>

theorem Run_incompatible_manifests_counterexample:
  "Intersect (ExactVersion ''1.0.0'') (ExactVersion ''2.0.0'') = NoVersion
   \<and> DependencyConstraints Intersect
       (ex_workspace
          [Some (ex_project ''a''
                   [(''lib'', \<lparr> Source = [], Constraint = ExactVersion ''1.0.0'' \<rparr>)]),
           Some (ex_project ''b''
                   [(''lib'', \<lparr> Source = [], Constraint = ExactVersion ''2.0.0'' \<rparr>)])])
     = Returns [''lib'' \<mapsto> \<lparr> Source = [], Constraint = ExactVersion ''1.0.0'' \<rparr>]
   \<and> Run (ex_run_env ex_load ex_parse (\<lambda>params. Inr [])) False
         \<lparr> WorkingDir = ''/ws'', Verbose = False \<rparr> []
     = Returns None
   \<and> Run (ex_run_env ex_load ex_parse (\<lambda>params. Inl (ErrNew ''solver started''))) False
         \<lparr> WorkingDir = ''/ws'', Verbose = False \<rparr> []
     = Returns (Some (ErrNew ''solver started''))"
  by (simp add: DependencyConstraints_def Run_def NewWorkspace_def NewManifest_def
        readManifest_def fromRawManifest_def NewLock_def getProjects_def
        ws_ParseRootPackageTree_def ws_MakeParams_def write_back_def
        ex_run_env_def ex_load_def ex_workspace_def ex_project_def ex_parse_def Let_def)

text \<open>
  Claim C2, amended.  Neither aggregation nor the command tests for an empty
  intersection.  \<open>DependencyConstraints\<close> and \<open>Overrides\<close> have no error result: they
  return a table whenever no project and no manifest is nil, and dereference it else.  And
  once the workspace is loaded, the source manager is there, the project roots validate,
  the tree is parsed, \<open>checkErrors\<close> reports nothing fatal, there are no arguments and
  \<open>ValidateParams\<close> and \<open>Prepare\<close> accept the parameters, \<open>Run\<close> starts the
  solver, whatever constraints the manifests declare; its result is then the solver's
  error or the result of writing the solution back.
\<close>

theorem Run_starts_solver:
  assumes "NewWorkspace E ctx = Returns w"
    and "SourceManager E = None"
    and "validate_roots E (w_Projects w) = Returns None"
    and "ws_ParseRootPackageTree E w = Returns (tree, None)"
    and "check_projects E (t_Packages tree) (w_Projects w) = Returns None"
    and "ValidateParams E
           ((if Verbose ctx then (ws_MakeParams w)\<lparr>wsp_TraceLogger := True\<rparr>
             else ws_MakeParams w)\<lparr>wsp_RootPackageTree := tree\<rparr>) = None"
    and "Prepare E
           ((if Verbose ctx then (ws_MakeParams w)\<lparr>wsp_TraceLogger := True\<rparr>
             else ws_MakeParams w)\<lparr>wsp_RootPackageTree := tree\<rparr>) = Inr solver"
  shows "Run E dryRun ctx [] =
           (case Solve E solver of
              Inl err \<Rightarrow> Returns (Some (handleAllTheFailuresOfTheWorld E err))
            | Inr solution \<Rightarrow> write_back E dryRun w solution)
         \<and> (\<exists>t. DependencyConstraints I w = Returns t) = (manifests_of (w_Projects w) \<noteq> None)
         \<and> (\<exists>t. Overrides I w = Returns t) = (manifests_of (w_Projects w) \<noteq> None)"
proof -
  have "Run E dryRun ctx [] =
           (case Solve E solver of
              Inl err \<Rightarrow> Returns (Some (handleAllTheFailuresOfTheWorld E err))
            | Inr solution \<Rightarrow> write_back E dryRun w solution)"
    using assms by (simp add: Run_def Let_def)
  moreover have
    "(\<exists>t. DependencyConstraints I w = Returns t) = (manifests_of (w_Projects w) \<noteq> None)"
    by (simp add: DependencyConstraints_def aggregate_first_wins split: option.splits)
  moreover have
    "(\<exists>t. Overrides I w = Returns t) = (manifests_of (w_Projects w) \<noteq> None)"
    by (simp add: Overrides_def aggregate_first_wins split: option.splits)
  ultimately show ?thesis by blast
qed

theorem Run_starts_solver_witness:
  "Run (ex_run_env ex_load ex_parse (\<lambda>params. Inl (ErrNew ''no solution''))) True
     \<lparr> WorkingDir = ''/ws'', Verbose = True \<rparr> []
   = Returns (Some (ErrNew ''no solution''))"
proof -
  let ?E = "ex_run_env ex_load ex_parse (\<lambda>params. Inl (ErrNew ''no solution''))"
  let ?ctx = "\<lparr> WorkingDir = ''/ws'', Verbose = True \<rparr>"
  let ?w = "\<lparr> w_AbsRoot = ''/ws'', w_Lock = Some [],
              w_Manifest = Some (fromRawManifest (r_flags ?E)
                 \<lparr> raw_Packages = [\<lparr> Name = ''a'', Path = ''a'' \<rparr>,
                                   \<lparr> Name = ''b'', Path = ''b'' \<rparr>] \<rparr>),
              w_Projects = [ Some (ex_project ''a''
                   [(''lib'', \<lparr> Source = [], Constraint = ExactVersion ''1.0.0'' \<rparr>)]),
                 Some (ex_project ''b''
                   [(''lib'', \<lparr> Source = [], Constraint = ExactVersion ''2.0.0'' \<rparr>)])] \<rparr>"
  let ?tree = "\<lparr> t_ImportRoot = ''/ws'',
       t_Packages = (Map.empty ++ t_Packages (fst (ex_parse (ex_project ''a'' [])))) ++
                    t_Packages (fst (ex_parse (ex_project ''b'' []))) \<rparr>"
  let ?params = "((ws_MakeParams ?w)\<lparr>wsp_TraceLogger := True\<rparr>)\<lparr>wsp_RootPackageTree := ?tree\<rparr>"
  have 1: "NewWorkspace ?E ?ctx = Returns ?w"
    by (simp add: NewWorkspace_def NewManifest_def readManifest_def NewLock_def
          getProjects_def fromRawManifest_def ex_run_env_def ex_load_def Let_def)
  have 2: "SourceManager ?E = None" by (simp add: ex_run_env_def)
  have 3: "validate_roots ?E (w_Projects ?w) = Returns None" by (simp add: ex_run_env_def)
  have 4: "ws_ParseRootPackageTree ?E ?w = Returns (?tree, None)"
    by (simp add: ws_ParseRootPackageTree_def ex_run_env_def ex_parse_def ex_project_def)
  have 5: "check_projects ?E (t_Packages ?tree) (w_Projects ?w) = Returns None"
    by (simp add: ex_run_env_def)
  have 6: "ValidateParams ?E
           ((if Verbose ?ctx then (ws_MakeParams ?w)\<lparr>wsp_TraceLogger := True\<rparr>
             else ws_MakeParams ?w)\<lparr>wsp_RootPackageTree := ?tree\<rparr>) = None"
    by (simp add: ex_run_env_def)
  have 7: "Prepare ?E
           ((if Verbose ?ctx then (ws_MakeParams ?w)\<lparr>wsp_TraceLogger := True\<rparr>
             else ws_MakeParams ?w)\<lparr>wsp_RootPackageTree := ?tree\<rparr>) = Inr ?params"
    by (simp add: ex_run_env_def)
  from Run_starts_solver[OF 1 2 3 4 5 6 7, of True Intersect]
  show ?thesis by (simp add: ex_run_env_def)
qed

section \<open>Merging the root tree with the sub-projects' trees\<close>

text \<open>
  Claim C3, as stated, fails where two sub-projects' trees have an entry at the same import
  path: the sub-projects \<open>lib\<close> and \<open>lib/sub\<close> both have one at \<open>lib/sub\<close>, and the
  merged tree holds the entry of \<open>lib/sub\<close>, the later of the two, not the entry of
  \<open>lib\<close>.
\<close>

theorem overlay_entry_overwritten_counterexample:
  "(case ParseRootPackageTree (ex_env ex_manifestFromProject (\<lambda>d. True) ex_parse) False
           (ex_kdep_project [Some (ex_project ''lib'' []), Some (ex_project ''lib/sub'' [])]) of
      Returns (r, e) \<Rightarrow> t_Packages r ''lib/sub''
    | Panics \<Rightarrow> None) = Some (ex_pkg ''lib/sub'' [''os''])
   \<and> t_Packages (fst (dep_ParseRootPackageTree (ex_env ex_manifestFromProject (\<lambda>d. True) ex_parse)
                        (ex_project ''lib'' []))) ''lib/sub''
     = Some (ex_pkg ''lib/sub'' [''fmt''])
   \<and> ex_pkg ''lib/sub'' [''fmt''] \<noteq> ex_pkg ''lib/sub'' [''os'']"
  by (simp add: ParseRootPackageTree_def ex_env_def ex_kdep_project_def ex_project_def
        ex_parse_def ex_pkg_def)

text \<open>
  Claim C3, amended.  When \<open>ParseRootPackageTree\<close> returns a merged tree in kdep mode,
  every sub-project is non-nil, the import root is the base tree's, and the entry at each
  import path is: the entry of the last sub-project tree, in \<open>SubProjects\<close> order, that
  has the path, if any has it; otherwise nothing when the path falls under the import
  root followed by a slash and a local gopath; otherwise the base tree's entry.  So no
  stripped base entry survives unless a sub-project's tree has the path, a sub-project's
  entry replaces the base's, and a later sub-project's entry replaces an earlier one's.
\<close>

theorem ParseRootPackageTree_merge:
  assumes "ParseRootPackageTree E False p = Returns (r, None)"
  shows "\<exists>dp base. k_Project p = Some dp \<and> dep_ParseRootPackageTree E dp = (base, None) \<and>
           None \<notin> set (SubProjects p) \<and> t_ImportRoot r = t_ImportRoot base \<and>
           (\<forall>imp. t_Packages r imp =
              (case find (\<lambda>t. t imp \<noteq> None)
                      (rev (map (\<lambda>s. t_Packages (fst (dep_ParseRootPackageTree E (the s))))
                              (SubProjects p))) of
                 Some t \<Rightarrow> t imp
               | None \<Rightarrow>
                   if list_ex (\<lambda>gp. prefix (p_ImportRoot dp @ ''/'' @ gp) imp)
                        (LocalGopaths (km_Meta (k_Manifest p)))
                   then None else t_Packages base imp))"
proof -
  from assms obtain dp where dp: "k_Project p = Some dp"
    by (auto simp: ParseRootPackageTree_def split: option.splits)
  obtain base e where b: "dep_ParseRootPackageTree E dp = (base, e)"
    by (cases "dep_ParseRootPackageTree E dp")
  from assms dp b have e: "e = None"
    by (auto simp: ParseRootPackageTree_def split: option.splits outcome.splits)
  from assms dp b e obtain pkgs where
    ov: "overlay_projects (dep_ParseRootPackageTree E) (SubProjects p)
           (strip_local (p_ImportRoot dp) (LocalGopaths (km_Meta (k_Manifest p)))
              (t_Packages base)) = Returns pkgs"
    and r: "r = base\<lparr>t_Packages := pkgs\<rparr>"
    by (auto simp: ParseRootPackageTree_def split: outcome.splits)
  from overlay_projects_Returns[OF ov] r dp b e show ?thesis
    by (simp add: foldl_map_add_find strip_local_def)
qed

theorem ParseRootPackageTree_merge_witness:
  "ParseRootPackageTree (ex_env ex_manifestFromProject (\<lambda>d. True) ex_parse) False
       (ex_kdep_project [Some (ex_project ''lib'' []), Some (ex_project ''lib/sub'' [])])
     = Returns (\<lparr> t_ImportRoot = ''kroot'',
                  t_Packages = [''kroot'' \<mapsto> ex_pkg ''kroot'' [''lib''],
                                ''lib/sub'' \<mapsto> ex_pkg ''lib/sub'' [''os'']] \<rparr>, None)"
proof -
  let ?E = "ex_env ex_manifestFromProject (\<lambda>d. True) ex_parse"
  let ?p = "ex_kdep_project [Some (ex_project ''lib'' []), Some (ex_project ''lib/sub'' [])]"
  obtain r e where re: "ParseRootPackageTree ?E False ?p = Returns (r, e)"
    by (simp add: ParseRootPackageTree_def ex_env_def ex_kdep_project_def ex_project_def
          ex_parse_def)
  then have e: "e = None"
    by (simp add: ParseRootPackageTree_def ex_env_def ex_kdep_project_def ex_project_def
          ex_parse_def)
  from ParseRootPackageTree_merge[OF re[unfolded e]]
  have root: "t_ImportRoot r = ''kroot''"
    and pk: "\<And>imp. t_Packages r imp =
               [''kroot'' \<mapsto> ex_pkg ''kroot'' [''lib''],
                ''lib/sub'' \<mapsto> ex_pkg ''lib/sub'' [''os'']] imp"
    by (auto simp: ex_env_def ex_kdep_project_def ex_project_def ex_parse_def
          ex_root_manifest_def)
  from pk have "t_Packages r = [''kroot'' \<mapsto> ex_pkg ''kroot'' [''lib''],
                ''lib/sub'' \<mapsto> ex_pkg ''lib/sub'' [''os'']]" by blast
  with root have "r = \<lparr> t_ImportRoot = ''kroot'',
                  t_Packages = [''kroot'' \<mapsto> ex_pkg ''kroot'' [''lib''],
                                ''lib/sub'' \<mapsto> ex_pkg ''lib/sub'' [''os'']] \<rparr>"
    by (cases r) simp
  with re e show ?thesis by simp
qed


text \<open>
  The two forms of the merge agree where no sub-project's tree is the base's own map
  object: the value form, on the trees read from the store before the call, returns the
  tree that the store form returns, read from the store after the call.
\<close>

lemma ParseRootPackageTree_store_agrees:
  assumes env: "dep_ParseRootPackageTree E = (\<lambda>dp. deref h (parse dp))"
    and dp: "k_Project p = Some dp"
    and base: "tr_Packages (fst (parse dp)) = Some a"
    and sep: "\<forall>sub. Some sub \<in> set (SubProjects p) \<longrightarrow> tr_Packages (fst (parse sub)) \<noteq> Some a"
  shows "ParseRootPackageTree E False p =
           (case ParseRootPackageTree_store parse h False p of
              Panics \<Rightarrow> Panics
            | Returns (r, h') \<Rightarrow> Returns (deref h' r))"
proof -
  obtain tree e where pd: "parse dp = (tree, e)" by (cases "parse dp")
  with base have ta: "tr_Packages tree = Some a" by simp
  show ?thesis
  proof (cases e)
    case (Some err)
    with env dp pd show ?thesis
      by (simp add: ParseRootPackageTree_def ParseRootPackageTree_store_def deref_def)
  next
    case None
    let ?h1 = "h(a := strip_local (p_ImportRoot dp)
                        (LocalGopaths (km_Meta (k_Manifest p))) (h a))"
    have off: "\<forall>x. x \<noteq> a \<longrightarrow> ?h1 x = h x" by simp
    show ?thesis
    proof (cases "overlay_projects_store parse (SubProjects p) (Some a) ?h1")
      case Panics
      from overlay_store_Panics[OF Panics off sep]
      have "overlay_projects (\<lambda>dp. deref h (parse dp)) (SubProjects p)
              (strip_local (p_ImportRoot dp) (LocalGopaths (km_Meta (k_Manifest p))) (h a))
            = Panics"
        by simp
      with Panics env dp pd None ta show ?thesis
        by (simp add: ParseRootPackageTree_def ParseRootPackageTree_store_def deref_def)
    next
      case (Returns h')
      from overlay_store_Returns[OF Returns off sep]
      have "overlay_projects (\<lambda>dp. deref h (parse dp)) (SubProjects p)
              (strip_local (p_ImportRoot dp) (LocalGopaths (km_Meta (k_Manifest p))) (h a))
            = Returns (h' a)"
        by simp
      with Returns env dp pd None ta show ?thesis
        by (simp add: ParseRootPackageTree_def ParseRootPackageTree_store_def deref_def)
    qed
  qed
qed




section \<open>The workspace's root tree\<close>

text \<open>
  Claim C7, as stated, fails: the workspace at \<open>/ws\<close> with the one member project
  \<open>a\<close> gets a tree whose import root is \<open>/ws\<close> and whose keys are \<open>a\<close> and
  \<open>a/gopath/src/lib\<close>, neither of which has \<open>/ws\<close> as a prefix.
\<close>

theorem workspace_tree_keys_counterexample:
  "ws_ParseRootPackageTree (ex_run_env (\<lambda>d. Inr (ex_project d [])) ex_parse (\<lambda>ps. Inr []))
     (ex_workspace [Some (ex_project ''a'' [])])
   = Returns (\<lparr> t_ImportRoot = ''/ws'',
                t_Packages = [''a'' \<mapsto> ex_pkg ''a'' [''lib''],
                              ''a/gopath/src/lib'' \<mapsto> ex_pkg ''a/gopath/src/lib'' []] \<rparr>, None)
   \<and> \<not> keys_under_ImportRoot
         \<lparr> t_ImportRoot = ''/ws'',
           t_Packages = [''a'' \<mapsto> ex_pkg ''a'' [''lib''],
                         ''a/gopath/src/lib'' \<mapsto> ex_pkg ''a/gopath/src/lib'' []] \<rparr>"
  by (simp add: ws_ParseRootPackageTree_def ex_run_env_def ex_workspace_def ex_project_def
        ex_parse_def keys_under_ImportRoot_def)

text \<open>
  Claim C7, amended.  The tree returned by the workspace's \<open>ParseRootPackageTree\<close> has
  the workspace's absolute root as import root and no error, its keys are exactly the keys
  of the member projects' trees, and it satisfies the key invariant exactly when every
  key of every member tree has the absolute root as a prefix.
\<close>

theorem ws_ParseRootPackageTree_keys:
  assumes "ws_ParseRootPackageTree E w = Returns (t, e)"
  shows "e = None \<and> t_ImportRoot t = w_AbsRoot w \<and> None \<notin> set (w_Projects w) \<and>
         dom (t_Packages t) =
           (\<Union>p\<in>set (w_Projects w). dom (t_Packages (fst (r_ParseRootPackageTree E (the p))))) \<and>
         (keys_under_ImportRoot t \<longleftrightarrow>
            (\<forall>p\<in>set (w_Projects w).
               \<forall>imp\<in>dom (t_Packages (fst (r_ParseRootPackageTree E (the p)))).
                 prefix (w_AbsRoot w) imp))"
proof -
  from assms obtain pkgs where
    ov: "overlay_projects (r_ParseRootPackageTree E) (w_Projects w) Map.empty = Returns pkgs"
    and t: "t = \<lparr> t_ImportRoot = w_AbsRoot w, t_Packages = pkgs \<rparr>" and e: "e = None"
    by (auto simp: ws_ParseRootPackageTree_def split: outcome.splits)
  from overlay_projects_Returns[OF ov] have nn: "None \<notin> set (w_Projects w)"
    and pk: "pkgs = foldl (++) Map.empty
               (map (\<lambda>s. t_Packages (fst (r_ParseRootPackageTree E (the s)))) (w_Projects w))"
    by simp_all
  have d: "dom pkgs =
      (\<Union>p\<in>set (w_Projects w). dom (t_Packages (fst (r_ParseRootPackageTree E (the p)))))"
    unfolding pk by (simp add: dom_foldl_map_add)
  show ?thesis
    using e nn d t by (auto simp: keys_under_ImportRoot_def)
qed

theorem ws_ParseRootPackageTree_keys_witness:
  "ws_ParseRootPackageTree (ex_run_env (\<lambda>d. Inr (ex_project d [])) ex_parse (\<lambda>ps. Inr []))
     (ex_workspace [Some (ex_project ''lib'' []), Some (ex_project ''lib/sub'' [])])
   = Returns (\<lparr> t_ImportRoot = ''/ws'',
                t_Packages = [''lib/sub'' \<mapsto> ex_pkg ''lib/sub'' [''os'']] \<rparr>, None)
   \<and> dom [''lib/sub'' \<mapsto> ex_pkg ''lib/sub'' [''os'']] = {''lib/sub''}
   \<and> \<not> keys_under_ImportRoot
         \<lparr> t_ImportRoot = ''/ws'',
           t_Packages = [''lib/sub'' \<mapsto> ex_pkg ''lib/sub'' [''os'']] \<rparr>"
  using ws_ParseRootPackageTree_keys
    [of "ex_run_env (\<lambda>d. Inr (ex_project d [])) ex_parse (\<lambda>ps. Inr [])"
        "ex_workspace [Some (ex_project ''lib'' []), Some (ex_project ''lib/sub'' [])]"
        "\<lparr> t_ImportRoot = ''/ws'',
           t_Packages = [''lib/sub'' \<mapsto> ex_pkg ''lib/sub'' [''os'']] \<rparr>" None]
  by (simp add: ws_ParseRootPackageTree_def ex_run_env_def ex_workspace_def ex_project_def
        ex_parse_def)

section \<open>Wrapping a project\<close>

text \<open>
  Claim C9, evaluated.  The kdep root project declares the local dependency \<open>lib\<close> and
  the local gopath \<open>gopath\<close>, and no candidate directory exists.  \<open>WrapProject\<close>
  succeeds in kdep mode with the one slot of \<open>SubProjects\<close> left nil, and
  \<open>ParseRootPackageTree\<close> on that project dereferences it.
\<close>

theorem WrapProject_leaves_nil_SubProject:
  "WrapProject (ex_env ex_manifestFromProject (\<lambda>d. False) ex_parse) False
     (Some (ex_project ''kroot'' []))
   = (Returns (Inr \<lparr> k_Project = Some (ex_project ''kroot'' []),
                      k_Manifest = ex_root_manifest\<lparr>SubManifests := Map.empty,
                                                     Dependencies := Some ()\<rparr>,
                      SubProjects = [None],
                      extraVendorEntries = Map.empty \<rparr>), False)
   \<and> ParseRootPackageTree (ex_env ex_manifestFromProject (\<lambda>d. False) ex_parse) False
       \<lparr> k_Project = Some (ex_project ''kroot'' []),
         k_Manifest = ex_root_manifest\<lparr>SubManifests := Map.empty, Dependencies := Some ()\<rparr>,
         SubProjects = [None],
         extraVendorEntries = Map.empty \<rparr>
     = Panics"
  by (simp add: WrapProject_def ParseRootPackageTree_def ex_env_def ex_manifestFromProject_def
        ex_project_def ex_root_manifest_def ex_parse_def)

text \<open>
  Claim C4, as stated, fails.  Wrapping the project \<open>plain\<close>, which has no kdep
  manifest, sets the package-level flag; wrapping the kdep root \<open>kroot\<close> after that gives
  the plain dep wrapping with no sub-projects, where wrapping it first gives the kdep
  project with its sub-project \<open>lib\<close>.
\<close>

theorem WrapProject_flag_interference_counterexample:
  "snd (WrapProject (ex_env ex_manifestFromProject (\<lambda>d. True) ex_parse) False
          (Some (ex_project ''plain'' []))) = True
   \<and> fst (WrapProject (ex_env ex_manifestFromProject (\<lambda>d. True) ex_parse)
            (snd (WrapProject (ex_env ex_manifestFromProject (\<lambda>d. True) ex_parse) False
                    (Some (ex_project ''plain'' []))))
            (Some (ex_project ''kroot'' [])))
     = Returns (Inr \<lparr> k_Project = Some (ex_project ''kroot'' []),
                      k_Manifest = WrapManifest (ex_env ex_manifestFromProject (\<lambda>d. True) ex_parse)
                                     (p_Manifest (ex_project ''kroot'' [])),
                      SubProjects = [],
                      extraVendorEntries = Map.empty \<rparr>)
   \<and> fst (WrapProject (ex_env ex_manifestFromProject (\<lambda>d. True) ex_parse) False
            (Some (ex_project ''kroot'' [])))
     = Returns (Inr \<lparr> k_Project = Some (ex_project ''kroot'' []),
                      k_Manifest = ex_root_manifest
                        \<lparr>SubManifests :=
                           [''lib'' \<mapsto> p_Manifest (ex_project ''/src/kroot/gopath/src/lib'' [])],
                         Dependencies := Some ()\<rparr>,
                      SubProjects =
                        [Some ((ex_project ''/src/kroot/gopath/src/lib'' [])
                                 \<lparr>p_ImportRoot := ''lib''\<rparr>)],
                      extraVendorEntries = [''lib'' \<mapsto> ''/src/kroot/gopath/src/lib''] \<rparr>)"
  by (simp add: WrapProject_def ex_env_def ex_manifestFromProject_def
        ex_project_def ex_root_manifest_def Let_def)

text \<open>
  Claim C4, amended.  The results of \<open>WrapProject\<close>, \<open>MakeParams\<close>,
  \<open>ParseRootPackageTree\<close> and \<open>HackGodepsCompat\<close> are functions of their explicit
  inputs and of the package-level flag \<open>FallbackToDep\<close>.  Only \<open>WrapProject\<close> writes
  the flag: after a call the flag is set exactly when it was set before or the wrapped
  project has no kdep manifest or is neither kdep root nor kdep child.  With the flag set,
  \<open>WrapProject\<close> returns the plain dep wrapping and leaves the flag set,
  \<open>MakeParams\<close> and \<open>ParseRootPackageTree\<close> are those of the embedded dep project,
  and \<open>HackGodepsCompat\<close> writes nothing.  Wrapping a kdep root or child from the unset
  flag does not change what a later \<open>WrapProject\<close> does.
\<close>

theorem FallbackToDep_carried_between_calls:
  "snd (WrapProject E f p) =
     (f \<or> (case manifestFromProject E p of
              None \<Rightarrow> True
            | Some m \<Rightarrow> \<not> IsKdepRoot (km_Meta m) \<and> \<not> IsKdepChild (km_Meta m)))
   \<and> WrapProject E True q =
       (Returns (Inr \<lparr> k_Project = q,
                       k_Manifest =
                         WrapManifest E (case q of None \<Rightarrow> None | Some dp \<Rightarrow> p_Manifest dp),
                       SubProjects = [],
                       extraVendorEntries = Map.empty \<rparr>), True)
   \<and> MakeParams E True P =
       (case k_Project P of None \<Rightarrow> Panics | Some dp \<Rightarrow> Returns (dep_MakeParams E dp))
   \<and> ParseRootPackageTree E True P =
       (case k_Project P of
          None \<Rightarrow> Panics
        | Some dp \<Rightarrow> Returns (dep_ParseRootPackageTree E dp))
   \<and> HackGodepsCompat E True P s = Returns (None, None)
   \<and> ((case manifestFromProject E p of
          None \<Rightarrow> False
        | Some m \<Rightarrow> IsKdepRoot (km_Meta m) \<or> IsKdepChild (km_Meta m)) \<longrightarrow>
        WrapProject E (snd (WrapProject E False p)) q = WrapProject E False q)"
proof -
  have flag: "snd (WrapProject E f p) =
     (f \<or> (case manifestFromProject E p of
              None \<Rightarrow> True
            | Some m \<Rightarrow> \<not> IsKdepRoot (km_Meta m) \<and> \<not> IsKdepChild (km_Meta m)))" for f p
    by (auto simp: WrapProject_def Let_def split: option.splits sum.splits prod.splits)
  have fb: "WrapProject E True q =
       (Returns (Inr \<lparr> k_Project = q,
                       k_Manifest =
                         WrapManifest E (case q of None \<Rightarrow> None | Some dp \<Rightarrow> p_Manifest dp),
                       SubProjects = [],
                       extraVendorEntries = Map.empty \<rparr>), True)"
    by (simp add: WrapProject_def split: option.splits)
  have mp: "MakeParams E True P =
       (case k_Project P of None \<Rightarrow> Panics | Some dp \<Rightarrow> Returns (dep_MakeParams E dp))"
    by (simp add: MakeParams_def split: option.splits)
  have pt: "ParseRootPackageTree E True P =
       (case k_Project P of
          None \<Rightarrow> Panics
        | Some dp \<Rightarrow> Returns (dep_ParseRootPackageTree E dp))"
    by (simp add: ParseRootPackageTree_def split: option.splits)
  have hg: "HackGodepsCompat E True P s = Returns (None, None)"
    by (simp add: HackGodepsCompat_def)
  have same: "(case manifestFromProject E p of
          None \<Rightarrow> False
        | Some m \<Rightarrow> IsKdepRoot (km_Meta m) \<or> IsKdepChild (km_Meta m)) \<longrightarrow>
        WrapProject E (snd (WrapProject E False p)) q = WrapProject E False q"
    by (auto simp: flag split: option.splits)
  from flag fb mp pt hg same show ?thesis by blast
qed

theorem FallbackToDep_carried_between_calls_witness:
  "snd (WrapProject (ex_env ex_manifestFromProject (\<lambda>d. True) ex_parse) False
          (Some (ex_project ''kroot'' []))) = False
   \<and> WrapProject (ex_env ex_manifestFromProject (\<lambda>d. True) ex_parse)
       (snd (WrapProject (ex_env ex_manifestFromProject (\<lambda>d. True) ex_parse) False
               (Some (ex_project ''kroot'' []))))
       (Some (ex_project ''plain'' []))
     = WrapProject (ex_env ex_manifestFromProject (\<lambda>d. True) ex_parse) False
         (Some (ex_project ''plain'' []))"
  using FallbackToDep_carried_between_calls
    [of "ex_env ex_manifestFromProject (\<lambda>d. True) ex_parse" False
        "Some (ex_project ''kroot'' [])" "Some (ex_project ''plain'' [])"]
  by (simp add: ex_env_def ex_manifestFromProject_def ex_project_def ex_root_manifest_def)

section \<open>The Godeps export\<close>

text \<open>
  Claim C5.  Two exports of the same solution for the same project that write the file
  write the same bytes to the same path, and the bytes are the marshalled struct whose
  dependency entries are sorted by import path and are, as a multiset, the entries listed
  from the solution.
\<close>

theorem HackGodepsCompat_sorted_deterministic:
  assumes "HackGodepsCompat E f1 p s = Returns (e1, Some (fname1, js1))"
    and "HackGodepsCompat E f2 p s = Returns (e2, Some (fname2, js2))"
  shows "js1 = js2 \<and> fname1 = fname2 \<and>
         (\<exists>dp ds. k_Project p = Some dp \<and>
            MarshalIndent E \<lparr> gd_Comment = ''GENERATED BY DEP, DO NOT EDIT'',
                              gd_ImportPath = p_ImportRoot dp,
                              gd_Deps = ds \<rparr> = Inr js1 \<and>
            sorted (map d_ImportPath ds) \<and>
            mset ds = mset (solution_deps E s))"
proof -
  from assms(1) obtain dp where dp: "k_Project p = Some dp"
    and f1: "\<not> f1" and gc: "GodepCompat (km_Meta (k_Manifest p))"
    by (auto simp: HackGodepsCompat_def split: if_splits option.splits)
  from assms(2) have f2: "\<not> f2"
    by (auto simp: HackGodepsCompat_def split: if_splits option.splits)
  let ?gd = "\<lparr> gd_Comment = ''GENERATED BY DEP, DO NOT EDIT'',
               gd_ImportPath = p_ImportRoot dp,
               gd_Deps = sort_key d_ImportPath (solution_deps E s) \<rparr>"
  from assms(1) dp f1 gc have m1: "MarshalIndent E ?gd = Inr js1"
    and n1: "fname1 = Join E [p_AbsRoot dp, ''Godeps'', ''Godeps.json'']"
    by (auto simp: HackGodepsCompat_def dumpToFile_def Let_def split: sum.splits)
  from assms(2) dp f2 gc have m2: "MarshalIndent E ?gd = Inr js2"
    and n2: "fname2 = Join E [p_AbsRoot dp, ''Godeps'', ''Godeps.json'']"
    by (auto simp: HackGodepsCompat_def dumpToFile_def Let_def split: sum.splits)
  from m1 m2 have "js1 = js2" by simp
  moreover from n1 n2 have "fname1 = fname2" by simp
  moreover have "sorted (map d_ImportPath (sort_key d_ImportPath (solution_deps E s)))"
    by simp
  moreover have "mset (sort_key d_ImportPath (solution_deps E s)) = mset (solution_deps E s)"
    by simp
  ultimately show ?thesis using dp m1 by blast
qed

theorem HackGodepsCompat_sorted_deterministic_witness:
  "HackGodepsCompat (ex_env ex_manifestFromProject (\<lambda>d. True) ex_parse) False
     (ex_kdep_project []) ex_solution
   = Returns (None, Some (''/src/kroot/Godeps/Godeps.json'',
                          ''kroot a/x@r2 a/y@r2 z/pkg@r1''))
   \<and> solution_deps (ex_env ex_manifestFromProject (\<lambda>d. True) ex_parse) ex_solution
   = [\<lparr> d_ImportPath = ''z/pkg'', d_Comment = ''v1.0.0'', d_Rev = ''r1'' \<rparr>,
      \<lparr> d_ImportPath = ''a/y'', d_Comment = [], d_Rev = ''r2'' \<rparr>,
      \<lparr> d_ImportPath = ''a/x'', d_Comment = [], d_Rev = ''r2'' \<rparr>]"
  using HackGodepsCompat_sorted_deterministic
    [of "ex_env ex_manifestFromProject (\<lambda>d. True) ex_parse" False "ex_kdep_project []"
        ex_solution None "''/src/kroot/Godeps/Godeps.json''" "''kroot a/x@r2 a/y@r2 z/pkg@r1''"
        False None "''/src/kroot/Godeps/Godeps.json''" "''kroot a/x@r2 a/y@r2 z/pkg@r1''"]
  by (simp add: HackGodepsCompat_def dumpToFile_def solution_deps_def ex_env_def
        ex_kdep_project_def ex_project_def ex_root_manifest_def ex_solution_def
        VersionComponentStrings_def less_eq_char_def less_char_def)

section \<open>Parse failures in the workspace command\<close>

text \<open>
  The workspace's \<open>ParseRootPackageTree\<close> never returns an error, and an entry of a
  member tree stays in the result as it is, error included, unless a later member's tree
  has the same import path.
\<close>

lemma ws_ParseRootPackageTree_keeps_entries:
  assumes "ws_ParseRootPackageTree E w = Returns (t, e)"
    and "w_Projects w = ps @ Some p # ps'"
    and "t_Packages (fst (r_ParseRootPackageTree E p)) imp = Some poe"
    and "\<forall>q\<in>set ps'. t_Packages (fst (r_ParseRootPackageTree E (the q))) imp = None"
  shows "e = None \<and> t_Packages t imp = Some poe"
proof -
  from assms(1) obtain pkgs where
    ov: "overlay_projects (r_ParseRootPackageTree E) (w_Projects w) Map.empty = Returns pkgs"
    and t: "t = \<lparr> t_ImportRoot = w_AbsRoot w, t_Packages = pkgs \<rparr>" and e: "e = None"
    by (auto simp: ws_ParseRootPackageTree_def split: outcome.splits)
  from overlay_projects_Returns[OF ov]
  have "pkgs = foldl (++) Map.empty
               (map (\<lambda>s. t_Packages (fst (r_ParseRootPackageTree E (the s)))) (w_Projects w))"
    by simp
  with assms(2-4) have "pkgs imp = Some poe"
    by (simp add: foldl_map_add_None map_add_def)
  with t e show ?thesis by simp
qed

text \<open>
  The check loop of \<open>Run\<close> returns an error only when \<open>checkErrors\<close> flags it fatal for
  some project; what \<open>checkErrors\<close> flags is decided outside the source file.
\<close>

lemma check_projects_error_is_fatal:
  "check_projects E pkgs ps = Returns (Some err) \<Longrightarrow>
     \<exists>p. Some p \<in> set ps \<and>
         checkErrors E pkgs (dep_IgnoredPackages E (p_Manifest p)) = (True, Some err)"
proof (induction ps)
  case Nil
  then show ?case by simp
next
  case (Cons a ps)
  show ?case
  proof (cases a)
    case None
    with Cons.prems show ?thesis by simp
  next
    case (Some p)
    with Cons show ?thesis
      by (auto split: prod.splits option.splits if_splits)
  qed
qed

section \<open>Fixed prune options\<close>

text \<open>
  Claim C10.  Whatever the manifest file holds and whatever the decoder makes of it, a
  manifest produced by \<open>readManifest\<close> or by \<open>NewManifest\<close> carries the fixed prune
  options: the default set is the union of the three flags nested-vendor-dirs, go-test-files
  and unused-packages, and the per-project table is empty.  Nothing read from the file
  reaches the prune options.
\<close>

theorem readManifest_PruneOptions_fixed:
  "(readManifest k Unmarshal r = Inr m \<longrightarrow>
      m_PruneOptions m =
        \<lparr> DefaultOptions =
            (PruneNestedVendorDirs k OR PruneGoTestFiles k OR PruneUnusedPackages k),
          PerProjectOptions = Map.empty \<rparr>) \<and>
   (NewManifest k Unmarshal jn fs root = Some m' \<longrightarrow>
      m_PruneOptions m' =
        \<lparr> DefaultOptions =
            (PruneNestedVendorDirs k OR PruneGoTestFiles k OR PruneUnusedPackages k),
          PerProjectOptions = Map.empty \<rparr>)"
  by (auto simp: readManifest_def NewManifest_def fromRawManifest_def Let_def
           split: sum.splits)

theorem readManifest_PruneOptions_fixed_witness:
  "readManifest
     \<lparr> PruneNestedVendorDirs = 1, PruneGoTestFiles = 8, PruneUnusedPackages = 2 \<rparr>
     (\<lambda>buf. Inr \<lparr> raw_Packages = [\<lparr> Name = ''a'', Path = ''src/a'' \<rparr>] \<rparr>)
     (Inr ''[prune]'')
   = Inr \<lparr> m_Packages = [\<lparr> Name = ''a'', Path = ''src/a'' \<rparr>],
           m_PruneOptions = \<lparr> DefaultOptions = 11, PerProjectOptions = Map.empty \<rparr> \<rparr>
   \<and> NewManifest
     \<lparr> PruneNestedVendorDirs = 1, PruneGoTestFiles = 8, PruneUnusedPackages = 2 \<rparr>
     (\<lambda>buf. Inr \<lparr> raw_Packages = [] \<rparr>)
     concat (\<lambda>p. Inr ''[prune]'') ''/ws''
   = Some \<lparr> m_Packages = [],
           m_PruneOptions = \<lparr> DefaultOptions = 11, PerProjectOptions = Map.empty \<rparr> \<rparr>"
  using readManifest_PruneOptions_fixed
    [of "\<lparr> PruneNestedVendorDirs = 1, PruneGoTestFiles = 8, PruneUnusedPackages = 2 \<rparr>"
        "\<lambda>buf. Inr \<lparr> raw_Packages = [\<lparr> Name = ''a'', Path = ''src/a'' \<rparr>] \<rparr>"
        "Inr ''[prune]''"
        "fromRawManifest
           \<lparr> PruneNestedVendorDirs = 1, PruneGoTestFiles = 8, PruneUnusedPackages = 2 \<rparr>
           \<lparr> raw_Packages = [\<lparr> Name = ''a'', Path = ''src/a'' \<rparr>] \<rparr>"]
  by (simp add: readManifest_def NewManifest_def fromRawManifest_def)

end
